theory Spec2Isabelle
  imports Complex_Main
begin

section \<open>JavaScript values used by the stock and invoice code\<close>

text \<open>
  Quantities, prices and amounts are JavaScript numbers in the source; they are modelled
  as exact integers. A field that may be absent from a document or a request
  (\<^verbatim>\<open>undefined\<close>) is an \<open>int option\<close>. Strings are ASCII character lists; an absent
  string field and the empty string are both falsy in the source and are both modelled
  as the empty string.
\<close>

definition truthy :: "int option \<Rightarrow> bool" where
  \<comment> \<open>the truthiness of a number field: \<^verbatim>\<open>undefined\<close> and \<^verbatim>\<open>0\<close> are falsy\<close>
  "truthy v = (case v of None \<Rightarrow> False | Some n \<Rightarrow> n \<noteq> 0)"

definition js_or :: "int option \<Rightarrow> int option \<Rightarrow> int option" where
  \<comment> \<open>\<^verbatim>\<open>a || b\<close>\<close>
  "js_or a b = (if truthy a then a else b)"

definition or_zero :: "int option \<Rightarrow> int" where
  \<comment> \<open>\<^verbatim>\<open>a || 0\<close>\<close>
  "or_zero a = (case a of None \<Rightarrow> 0 | Some n \<Rightarrow> n)"

definition digit_char :: "nat \<Rightarrow> char" where
  "digit_char d = ''0123456789abcdefghijklmnopqrstuvwxyz'' ! d"

function toString_radix :: "nat \<Rightarrow> nat \<Rightarrow> string" where
  \<comment> \<open>\<^verbatim>\<open>n.toString(b)\<close> for a non-negative integer\<close>
  "toString_radix b n =
     (if n < b \<or> b < 2 then [digit_char n]
      else toString_radix b (n div b) @ [digit_char (n mod b)])"
  by pat_completeness auto
termination
  by (relation "measure snd") auto

declare toString_radix.simps [simp del]

definition toString :: "int \<Rightarrow> string" where
  \<comment> \<open>a number inside a template literal\<close>
  "toString i = (if i < 0 then ''-'' @ toString_radix 10 (nat (- i)) else toString_radix 10 (nat i))"

definition padStart :: "nat \<Rightarrow> char \<Rightarrow> string \<Rightarrow> string" where
  "padStart n c s = replicate (n - length s) c @ s"

definition is_digit :: "char \<Rightarrow> bool" where
  "is_digit c = (c \<in> set ''0123456789'')"

definition parseInt :: "string \<Rightarrow> nat" where
  \<comment> \<open>\<^verbatim>\<open>parseInt(ds, 10)\<close> on a non-empty run of decimal digits\<close>
  "parseInt ds = foldl (\<lambda>a c. 10 * a + (of_char c - 48)) 0 ds"

definition toUpperCase_char :: "char \<Rightarrow> char" where
  "toUpperCase_char c =
     (case map_of (zip ''abcdefghijklmnopqrstuvwxyz'' ''ABCDEFGHIJKLMNOPQRSTUVWXYZ'') c of
        Some u \<Rightarrow> u | None \<Rightarrow> c)"

definition toUpperCase :: "string \<Rightarrow> string" where
  "toUpperCase s = map toUpperCase_char s"

definition is_space :: "char \<Rightarrow> bool" where
  \<comment> \<open>the ASCII white space that \<^verbatim>\<open>trim\<close> removes\<close>
  "is_space c = (c \<in> set [CHR '' '', CHR 0x09, CHR 0x0A, CHR 0x0B, CHR 0x0C, CHR 0x0D])"

definition trim :: "string \<Rightarrow> string" where
  "trim s = rev (dropWhile is_space (rev (dropWhile is_space s)))"

fun join :: "string \<Rightarrow> string list \<Rightarrow> string" where
  "join sep [] = []"
| "join sep [x] = x"
| "join sep (x # y # ys) = x @ sep @ join sep (y # ys)"

section \<open>Sequential invoice identifiers\<close>

text \<open>
  \<^verbatim>\<open>generateInvoiceId\<close> (controllers/invoiceCon.js). The regular expression
  \<^verbatim>\<open>/(?:INV-|inv-)(\d+)/i\<close> is not anchored: \<open>match_invoice_number\<close> tries every
  position from the left and returns the first capture, the longest run of digits
  after the prefix.
\<close>

fun inv_prefix :: "string \<Rightarrow> string option" where
  "inv_prefix (a # b # c # d # rest) =
     (if (a = CHR ''I'' \<or> a = CHR ''i'') \<and> (b = CHR ''N'' \<or> b = CHR ''n'')
         \<and> (c = CHR ''V'' \<or> c = CHR ''v'') \<and> d = CHR ''-''
      then Some rest else None)"
| "inv_prefix s = None"

fun match_invoice_number :: "string \<Rightarrow> string option" where
  "match_invoice_number [] = None"
| "match_invoice_number (c # cs) =
     (case inv_prefix (c # cs) of
        None \<Rightarrow> match_invoice_number cs
      | Some rest \<Rightarrow>
          (if takeWhile is_digit rest = [] then match_invoice_number cs
           else Some (takeWhile is_digit rest)))"

definition highestNumber :: "string list \<Rightarrow> nat" where
  \<comment> \<open>the \<^verbatim>\<open>forEach\<close> over the invoices, starting from \<^verbatim>\<open>highestNumber = 0\<close>\<close>
  "highestNumber ids =
     foldl (\<lambda>h i. case match_invoice_number i of
                     None \<Rightarrow> h
                   | Some ds \<Rightarrow> (if parseInt ds > h then parseInt ds else h)) 0 ids"

definition generateInvoiceId :: "string list option \<Rightarrow> nat \<Rightarrow> string" where
  \<comment> \<open>\<open>fetched\<close> is \<open>None\<close> when reading the invoices throws (the \<^verbatim>\<open>catch\<close> branch);
      \<open>now\<close> is \<^verbatim>\<open>Date.now()\<close>\<close>
  "generateInvoiceId fetched now =
     (case fetched of
        None \<Rightarrow> ''INV-'' @ toString_radix 36 now
      | Some ids \<Rightarrow>
          (let nextCount =
                 (if length ids > 0
                  then (if highestNumber ids > 0 then highestNumber ids + 1
                        else length ids + 1)
                  else 1)
           in ''INV-'' @ padStart 3 (CHR ''0'') (toString_radix 10 nextCount)))"

text \<open>
  The numbering rule in the words of the specification: \<open>N\<close> is the largest numeric
  suffix matched over all identifiers, or the number of invoices when no identifier
  has such a suffix.
\<close>

definition matched_suffixes :: "string list \<Rightarrow> nat list" where
  "matched_suffixes ids = map parseInt (List.map_filter match_invoice_number ids)"

definition spec_invoice_number :: "string list \<Rightarrow> nat" where
  "spec_invoice_number ids =
     (if matched_suffixes ids = [] then length ids else Max (set (matched_suffixes ids)))"

definition code_invoice_number :: "string list \<Rightarrow> nat" where
  \<comment> \<open>the rule the code follows: a largest suffix of zero counts as no suffix\<close>
  "code_invoice_number ids =
     (if list_ex (\<lambda>n. 0 < n) (matched_suffixes ids) then Max (set (matched_suffixes ids))
      else length ids)"

section \<open>The document store\<close>

text \<open>
  A collection is the list of its documents, each under its identifier. Reads see the
  committed state; a write batch is a list of staged writes that changes nothing until
  it is committed, and a commit applies the staged writes in the order they were staged.
  Every update the modelled functions stage targets a document that the same call has
  just read, so a commit always goes through. The \<^verbatim>\<open>updatedAt\<close>, \<^verbatim>\<open>createdAt\<close> and
  display-date fields are not modelled. \<^verbatim>\<open>collection.doc(path)\<close> throws on an empty
  path, with the message \<open>invalid_path\<close>. The field \<open>p_expiryDate\<close> of a product is
  the instant, in milliseconds, of its expiry date when it has one.
\<close>

record product =
  p_name :: string
  p_q :: "int option"
  p_quantity :: "int option"
  p_currentStock :: "int option"
  p_price :: "int option"
  p_unitPrice :: "int option"
  p_expiryDate :: "int option"

record invoice_line =
  il_productId :: string
  il_name :: string
  il_quantity :: int
  il_unitPrice :: int
  il_total :: int

record invoice =
  inv_clientId :: string
  inv_clientName :: string
  inv_products :: "invoice_line list"
  inv_remise :: int
  inv_advance :: int
  inv_total :: int
  inv_totalAfterDiscount :: int
  inv_rest :: int
  inv_status :: string
  inv_paid :: "bool option"

record movement_line =
  sl_productId :: string
  sl_productName :: string
  sl_quantity :: int
  sl_unitPrice :: int
  sl_total :: int
  sl_previousStock :: int
  sl_newStock :: int

record movement =
  mv_type :: string
  mv_department :: string
  mv_supplier :: string
  mv_stockManager :: string
  mv_products :: "movement_line list"
  mv_totalValue :: int
  mv_totalItems :: int
  mv_timestamp :: "int option"

text \<open>
  \<open>mv_timestamp\<close> is the instant, in milliseconds, that the expression
  \<^verbatim>\<open>movement.timestamp?.toDate ? ... : new Date(...)\<close> of \<^verbatim>\<open>deleteMovement\<close> yields for
  the document; \<open>None\<close> when it yields an invalid date, whose differences are
  \<^verbatim>\<open>NaN\<close> and fail every comparison.
\<close>

record db =
  products :: "(string \<times> product) list"
  invoices :: "(string \<times> invoice) list"
  stockMovements :: "(string \<times> movement) list"
  clients :: "string list"
  counter :: "int option"

record env =
  e_now :: nat
  e_id_store_fails :: bool

text \<open>
  \<open>counter\<close> is the \<^verbatim>\<open>count\<close> field of the document \<^verbatim>\<open>counters/stockMovements\<close>.
  \<open>e_now\<close> is the clock in milliseconds; \<open>e_id_store_fails\<close> tells that the store
  call inside an identifier generator throws, which sends it to its \<^verbatim>\<open>catch\<close> branch.
\<close>

definition invalid_path :: string where
  "invalid_path = ''Value for argument '' @ [CHR 0x22] @ ''documentPath'' @ [CHR 0x22]
                  @ '' is not a valid resource path. Path must be a non-empty string.''"

definition get_doc :: "(string \<times> 'a) list \<Rightarrow> string \<Rightarrow> 'a option" where
  "get_doc c k = map_of c k"

definition update_doc :: "string \<Rightarrow> ('a \<Rightarrow> 'a) \<Rightarrow> (string \<times> 'a) list \<Rightarrow> (string \<times> 'a) list" where
  "update_doc k f c = map (\<lambda>(k', v). if k' = k then (k', f v) else (k', v)) c"

definition set_doc :: "string \<Rightarrow> 'a \<Rightarrow> (string \<times> 'a) list \<Rightarrow> (string \<times> 'a) list" where
  "set_doc k v c = (if k \<in> fst ` set c then update_doc k (\<lambda>_. v) c else c @ [(k, v)])"

definition delete_doc :: "string \<Rightarrow> (string \<times> 'a) list \<Rightarrow> (string \<times> 'a) list" where
  "delete_doc k c = filter (\<lambda>(k', v). k' \<noteq> k) c"

record invoice_update =
  u_products :: "invoice_line list"
  u_total :: int
  u_totalAfterDiscount :: int
  u_rest :: int
  u_status :: string
  u_paid :: bool
  u_remise :: "int option"
  u_advance :: "int option"

datatype batch_write =
    SetQ string int
  | SetQAndQuantity string int
  | UpdateInvoice string invoice_update
  | MarkConfirmed string
  | SetInvoice string invoice

text \<open>
  The staged writes of the source:
  \<open>SetQ\<close> is \<^verbatim>\<open>batch.update(productRef, {q: v, updatedAt})\<close>,
  \<open>SetQAndQuantity\<close> is \<^verbatim>\<open>batch.update(docRef, {q: v, quantity: v, updatedAt})\<close>,
  \<open>UpdateInvoice\<close> is \<^verbatim>\<open>batch.update(invoiceRef, updateData)\<close>,
  \<open>MarkConfirmed\<close> is \<^verbatim>\<open>batch.update(invoiceRef, {status: "confirmed", ...})\<close> and
  \<open>SetInvoice\<close> is \<^verbatim>\<open>batch.set(invoiceRef, confirmedInvoice)\<close>.
\<close>

definition apply_invoice_update :: "invoice_update \<Rightarrow> invoice \<Rightarrow> invoice" where
  "apply_invoice_update u i =
     i\<lparr>inv_products := u_products u,
       inv_total := u_total u,
       inv_totalAfterDiscount := u_totalAfterDiscount u,
       inv_rest := u_rest u,
       inv_status := u_status u,
       inv_paid := Some (u_paid u),
       inv_remise := (case u_remise u of None \<Rightarrow> inv_remise i | Some r \<Rightarrow> r),
       inv_advance := (case u_advance u of None \<Rightarrow> inv_advance i | Some a \<Rightarrow> a)\<rparr>"

fun apply_write :: "batch_write \<Rightarrow> db \<Rightarrow> db" where
  "apply_write (SetQ k v) d = d\<lparr>products := update_doc k (\<lambda>p. p\<lparr>p_q := Some v\<rparr>) (products d)\<rparr>"
| "apply_write (SetQAndQuantity k v) d =
     d\<lparr>products := update_doc k (\<lambda>p. p\<lparr>p_q := Some v, p_quantity := Some v\<rparr>) (products d)\<rparr>"
| "apply_write (UpdateInvoice k u) d =
     d\<lparr>invoices := update_doc k (apply_invoice_update u) (invoices d)\<rparr>"
| "apply_write (MarkConfirmed k) d =
     d\<lparr>invoices := update_doc k (\<lambda>i. i\<lparr>inv_status := ''confirmed''\<rparr>) (invoices d)\<rparr>"
| "apply_write (SetInvoice k i) d = d\<lparr>invoices := set_doc k i (invoices d)\<rparr>"

definition commit :: "batch_write list \<Rightarrow> db \<Rightarrow> db" where
  "commit batch d = fold apply_write batch d"

section \<open>The stock ledger\<close>

text \<open>
  \<^verbatim>\<open>addQuantitiesToProducts\<close> and \<^verbatim>\<open>removeQuantitiesFromProducts\<close>
  (models/productModel.js). Each loop reads every product from the committed state,
  pushes one result per item and stages one write per successful item; the batch is
  committed after the loop. An item is the pair of its \<^verbatim>\<open>productId\<close> and its
  \<^verbatim>\<open>quantityToAdd\<close> or \<^verbatim>\<open>quantityToRemove\<close>.
\<close>

record ledger_result =
  r_productId :: string
  r_success :: bool
  r_oldQuantity :: "int option"
  r_newQuantity :: "int option"
  r_error :: "string option"

definition failure :: "string \<Rightarrow> string \<Rightarrow> ledger_result" where
  "failure pid msg =
     \<lparr>r_productId = pid, r_success = False, r_oldQuantity = None, r_newQuantity = None,
      r_error = Some msg\<rparr>"

definition success :: "string \<Rightarrow> int \<Rightarrow> int \<Rightarrow> ledger_result" where
  "success pid old new =
     \<lparr>r_productId = pid, r_success = True, r_oldQuantity = Some old, r_newQuantity = Some new,
      r_error = None\<rparr>"

definition add_item :: "(string \<times> product) list \<Rightarrow> string \<times> int \<Rightarrow> ledger_result \<times> batch_write list" where
  "add_item ps item =
     (case item of (pid, quantityToAdd) \<Rightarrow>
        if pid = [] then (failure pid invalid_path, [])
        else (case get_doc ps pid of
                None \<Rightarrow> (failure pid ''Product not found'', [])
              | Some p \<Rightarrow>
                  (let currentQuantity = or_zero (p_q p);
                       newQuantity = currentQuantity + quantityToAdd
                   in (success pid currentQuantity newQuantity, [SetQ pid newQuantity]))))"

definition remove_item :: "(string \<times> product) list \<Rightarrow> string \<times> int \<Rightarrow> ledger_result \<times> batch_write list" where
  "remove_item ps item =
     (case item of (pid, quantityToRemove) \<Rightarrow>
        if pid = [] then (failure pid invalid_path, [])
        else (case get_doc ps pid of
                None \<Rightarrow> (failure pid ''Product not found'', [])
              | Some p \<Rightarrow>
                  (let currentQuantity = or_zero (js_or (p_q p) (p_quantity p))
                   in if currentQuantity < quantityToRemove
                      then (failure pid (''Insufficient stock. Available: '' @ toString currentQuantity
                               @ '', Requested to remove: '' @ toString quantityToRemove), [])
                      else (let newQuantity = currentQuantity - quantityToRemove
                            in (success pid currentQuantity newQuantity,
                                [SetQAndQuantity pid newQuantity])))))"

definition ledger_loop ::
  "((string \<times> product) list \<Rightarrow> string \<times> int \<Rightarrow> ledger_result \<times> batch_write list)
   \<Rightarrow> (string \<times> product) list \<Rightarrow> (string \<times> int) list \<Rightarrow> ledger_result list \<times> batch_write list" where
  "ledger_loop step ps items = (map (\<lambda>i. fst (step ps i)) items, concat (map (\<lambda>i. snd (step ps i)) items))"

definition addQuantitiesToProducts :: "db \<Rightarrow> (string \<times> int) list \<Rightarrow> db \<times> ledger_result list" where
  "addQuantitiesToProducts d items =
     (case ledger_loop add_item (products d) items of
        (results, batch) \<Rightarrow> (commit batch d, results))"

definition removeQuantitiesFromProducts :: "db \<Rightarrow> (string \<times> int) list \<Rightarrow> db \<times> ledger_result list" where
  "removeQuantitiesFromProducts d items =
     (case ledger_loop remove_item (products d) items of
        (results, batch) \<Rightarrow> (commit batch d, results))"

section \<open>The stock movement engine\<close>

text \<open>
  \<^verbatim>\<open>createStockMovement\<close>, \<^verbatim>\<open>getNextMovementId\<close> and \<^verbatim>\<open>deleteMovement\<close>
  (models/movementModel.js).
\<close>

record movement_line_request =
  ml_productId :: string
  ml_quantity :: int
  ml_price :: "int option"

record movement_request =
  mr_type :: string
  mr_products :: "movement_line_request list"
  mr_stockManager :: string
  mr_department :: string
  mr_supplier :: string

record valid_product =
  vp_productId :: string
  vp_quantity :: int
  vp_name :: string
  vp_previousStock :: int
  vp_newStock :: int
  vp_unitPrice :: int

datatype validation_error =
    InvalidProductOrQuantity movement_line_request
  | ProductNotFound string
  | InsufficientStock string int int

definition stringify :: "movement_line_request \<Rightarrow> string" where
  \<comment> \<open>\<^verbatim>\<open>JSON.stringify(p)\<close>, over the modelled fields of the line\<close>
  "stringify p =
     ''{'' @ [CHR 0x22] @ ''productId'' @ [CHR 0x22] @ '':'' @ [CHR 0x22] @ ml_productId p @ [CHR 0x22]
     @ '','' @ [CHR 0x22] @ ''quantity'' @ [CHR 0x22] @ '':'' @ toString (ml_quantity p)
     @ (case ml_price p of
          None \<Rightarrow> []
        | Some v \<Rightarrow> '','' @ [CHR 0x22] @ ''price'' @ [CHR 0x22] @ '':'' @ toString v)
     @ ''}''"

fun validation_message :: "validation_error \<Rightarrow> string" where
  "validation_message (InvalidProductOrQuantity p) = ''Invalid product or quantity: '' @ stringify p"
| "validation_message (ProductNotFound pid) = ''Product not found: '' @ pid"
| "validation_message (InsufficientStock name currentStock quantity) =
     ''Insufficient stock for '' @ name @ ''. Available: '' @ toString currentStock
     @ '', Requested: '' @ toString quantity"

datatype line_outcome = Rejected validation_error | Accepted valid_product int

definition validate_line :: "string \<Rightarrow> (string \<times> product) list \<Rightarrow> movement_line_request \<Rightarrow> line_outcome" where
  \<comment> \<open>one turn of the validation loop; \<open>Accepted v t\<close> carries the amount the turn adds
      to \<^verbatim>\<open>totalValue\<close>\<close>
  "validate_line ty ps p =
     (if ml_productId p = [] \<or> ml_quantity p = 0 \<or> ml_quantity p \<le> 0
      then Rejected (InvalidProductOrQuantity p)
      else case get_doc ps (ml_productId p) of
             None \<Rightarrow> Rejected (ProductNotFound (ml_productId p))
           | Some productData \<Rightarrow>
               (let currentStock = or_zero (p_quantity productData);
                    unitPrice = or_zero (js_or (ml_price p) (p_price productData))
                in if ty = ''stock_in''
                   then Accepted \<lparr>vp_productId = ml_productId p, vp_quantity = ml_quantity p,
                                   vp_name = p_name productData, vp_previousStock = currentStock,
                                   vp_newStock = currentStock + ml_quantity p,
                                   vp_unitPrice = unitPrice\<rparr> (unitPrice * ml_quantity p)
                   else if currentStock - ml_quantity p < 0
                   then Rejected (InsufficientStock (p_name productData) currentStock (ml_quantity p))
                   else Accepted \<lparr>vp_productId = ml_productId p, vp_quantity = ml_quantity p,
                                   vp_name = p_name productData, vp_previousStock = currentStock,
                                   vp_newStock = currentStock - ml_quantity p,
                                   vp_unitPrice = unitPrice\<rparr> 0))"

fun validationErrors :: "line_outcome list \<Rightarrow> validation_error list" where
  "validationErrors [] = []"
| "validationErrors (Rejected e # os) = e # validationErrors os"
| "validationErrors (Accepted v t # os) = validationErrors os"

fun validProducts :: "line_outcome list \<Rightarrow> valid_product list" where
  "validProducts [] = []"
| "validProducts (Rejected e # os) = validProducts os"
| "validProducts (Accepted v t # os) = v # validProducts os"

fun totalValue :: "line_outcome list \<Rightarrow> int" where
  "totalValue [] = 0"
| "totalValue (Rejected e # os) = totalValue os"
| "totalValue (Accepted v t # os) = t + totalValue os"

definition getNextMovementId :: "env \<Rightarrow> db \<Rightarrow> db \<times> string" where
  "getNextMovementId e d =
     (if e_id_store_fails e then (d, ''MOV'' @ toString_radix 36 (e_now e))
      else (let currentCount = (case counter d of None \<Rightarrow> 1 | Some c \<Rightarrow> c + 1)
            in (d\<lparr>counter := Some currentCount\<rparr>,
                ''MOV'' @ padStart 6 (CHR ''0'') (toString currentCount))))"

definition stored_line :: "valid_product \<Rightarrow> movement_line" where
  "stored_line p =
     \<lparr>sl_productId = vp_productId p, sl_productName = vp_name p, sl_quantity = vp_quantity p,
      sl_unitPrice = vp_unitPrice p, sl_total = vp_unitPrice p * vp_quantity p,
      sl_previousStock = vp_previousStock p, sl_newStock = vp_newStock p\<rparr>"

datatype movement_result =
    MovementCreated string movement string
  | MovementFailed string

definition createStockMovement :: "env \<Rightarrow> db \<Rightarrow> movement_request \<Rightarrow> db \<times> movement_result" where
  "createStockMovement e d data =
     (if \<not> (mr_type data = ''stock_in'' \<or> mr_type data = ''distribution'')
      then (d, MovementFailed ''Valid movement type is required (stock_in or distribution)'')
      else if mr_products data = []
      then (d, MovementFailed ''At least one product is required'')
      else if trim (mr_stockManager data) = []
      then (d, MovementFailed ''Stock manager is required'')
      else if mr_type data = ''distribution'' \<and> mr_department data = []
      then (d, MovementFailed ''Department is required for distributions'')
      else if mr_type data = ''stock_in'' \<and> mr_supplier data = []
      then (d, MovementFailed ''Supplier is required for stock in'')
      else
        (let outcomes = map (validate_line (mr_type data) (products d)) (mr_products data)
         in if validationErrors outcomes \<noteq> []
            then (d, MovementFailed (''Validation errors: ''
                       @ join '', '' (map validation_message (validationErrors outcomes))))
            else
              (case getNextMovementId e d of
                 (d1, movementId) \<Rightarrow>
                   (let d2 = (if mr_type data = ''stock_in''
                              then fst (addQuantitiesToProducts d1
                                     (map (\<lambda>p. (vp_productId p, vp_quantity p)) (validProducts outcomes)))
                              else fst (removeQuantitiesFromProducts d1
                                     (map (\<lambda>p. (vp_productId p, vp_quantity p)) (validProducts outcomes))));
                        movementData =
                          \<lparr>mv_type = mr_type data,
                           mv_department = mr_department data,
                           mv_supplier = mr_supplier data,
                           mv_stockManager = trim (mr_stockManager data),
                           mv_products = map stored_line (validProducts outcomes),
                           mv_totalValue = totalValue outcomes,
                           mv_totalItems = sum_list (map vp_quantity (validProducts outcomes)),
                           mv_timestamp = Some (int (e_now e))\<rparr>
                    in (d2\<lparr>stockMovements := set_doc movementId movementData (stockMovements d2)\<rparr>,
                        MovementCreated movementId movementData
                          (if mr_type data = ''stock_in'' then ''Stock added successfully''
                           else ''Stock distributed successfully''))))))"

datatype delete_code = MOVEMENT_NOT_FOUND | MOVEMENT_TOO_OLD | STOCK_RESTORATION_FAILED | INTERNAL_ERROR

datatype delete_result =
    MovementDeleted "ledger_result list"
  | DeleteFailed delete_code string "string list"

text \<open>
  \<open>DeleteFailed code message errors\<close> is the failure object of \<^verbatim>\<open>deleteMovement\<close>;
  of the \<^verbatim>\<open>errors\<close> of an old movement only the fixed sentence is kept, not the
  sentence that prints the age.
\<close>

definition hoursDiff :: "nat \<Rightarrow> int \<Rightarrow> real" where
  \<comment> \<open>\<^verbatim>\<open>(now - movementTimestamp) / (1000 * 60 * 60)\<close>\<close>
  "hoursDiff now ts = real_of_int (int now - ts) / (1000 * 60 * 60)"

definition too_old :: "nat \<Rightarrow> movement \<Rightarrow> bool" where
  "too_old now m = (case mv_timestamp m of None \<Rightarrow> False | Some ts \<Rightarrow> hoursDiff now ts > 24)"

definition failedOperations :: "ledger_result list \<Rightarrow> ledger_result list" where
  "failedOperations results = filter (\<lambda>result. \<not> r_success result) results"

definition errorMessages :: "ledger_result list \<Rightarrow> string list" where
  "errorMessages failed =
     map (\<lambda>op. ''Product '' @ r_productId op @ '': ''
                 @ (case r_error op of None \<Rightarrow> ''undefined'' | Some m \<Rightarrow> m)) failed"

definition finish_delete :: "string \<Rightarrow> db \<times> ledger_result list \<Rightarrow> db \<times> delete_result" where
  \<comment> \<open>the part of \<^verbatim>\<open>deleteMovement\<close> after the ledger call\<close>
  "finish_delete mid r =
     (case r of (d1, stockRestorationResults) \<Rightarrow>
        if failedOperations stockRestorationResults \<noteq> []
        then (d1, DeleteFailed STOCK_RESTORATION_FAILED
                    ''Failed to restore stock levels for some products''
                    (errorMessages (failedOperations stockRestorationResults)))
        else (d1\<lparr>stockMovements := delete_doc mid (stockMovements d1)\<rparr>,
              MovementDeleted stockRestorationResults))"

definition reversal_items :: "movement \<Rightarrow> (string \<times> int) list" where
  "reversal_items m = map (\<lambda>p. (sl_productId p, sl_quantity p)) (mv_products m)"

definition deleteMovement :: "nat \<Rightarrow> db \<Rightarrow> string \<Rightarrow> db \<times> delete_result" where
  "deleteMovement now d mid =
     (if mid = [] then (d, DeleteFailed INTERNAL_ERROR invalid_path [invalid_path])
      else case get_doc (stockMovements d) mid of
        None \<Rightarrow> (d, DeleteFailed MOVEMENT_NOT_FOUND ''Movement not found''
                    [''Movement with ID '' @ mid @ '' does not exist''])
      | Some m \<Rightarrow>
          if too_old now m
          then (d, DeleteFailed MOVEMENT_TOO_OLD ''Cannot delete movement older than 24 hours''
                     [''Only movements from the last 24 hours can be deleted''])
          else if mv_type m = ''stock_in''
          then finish_delete mid (removeQuantitiesFromProducts d (reversal_items m))
          else if mv_type m = ''distribution''
          then finish_delete mid (addQuantitiesToProducts d (reversal_items m))
          else (d, DeleteFailed INTERNAL_ERROR
                     ''Cannot read properties of undefined (reading filter)''
                     [''Cannot read properties of undefined (reading filter)'']))"

section \<open>Invoices and stock\<close>

text \<open>
  \<^verbatim>\<open>createInvoice\<close>, \<^verbatim>\<open>createConfirmedInvoice\<close>, \<^verbatim>\<open>updateInvoice\<close>, \<^verbatim>\<open>confirmInvoice\<close>
  and \<^verbatim>\<open>deleteInvoice\<close> (controllers/invoiceCon.js) over the invoice model
  (models/invoiceModel.js). Every function returns the store it leaves behind together
  with its outcome: \<open>Threw m\<close> when it throws the error of message \<open>m\<close>,
  \<open>Returned v\<close> when it returns \<open>v\<close>.
\<close>

datatype 'a outcome = Threw string | Returned 'a

record line_request =
  lr_productId :: string
  lr_name :: string
  lr_quantity :: int
  lr_unitPrice :: "int option"
  lr_price :: "int option"

record invoice_request =
  rq_clientId :: string
  rq_clientName :: string
  rq_products :: "line_request list"
  rq_remise :: "int option"
  rq_advance :: "int option"

record update_request =
  ud_products :: "line_request list option"
  ud_remise :: "int option"
  ud_advance :: "int option"

record stock_update =
  su_productId :: string
  su_productName :: string
  su_currentStock :: int
  su_quantityDifference :: int
  su_newStock :: int

definition quoted :: "string \<Rightarrow> string" where
  "quoted s = [CHR 0x22] @ s @ [CHR 0x22]"

definition fetched_ids :: "env \<Rightarrow> db \<Rightarrow> string list option" where
  \<comment> \<open>\<^verbatim>\<open>invoiceModel.getAllInvoices()\<close> as the identifier generator sees it\<close>
  "fetched_ids e d = (if e_id_store_fails e then None else Some (map fst (invoices d)))"

definition line_errors :: "nat \<times> line_request \<Rightarrow> string list" where
  "line_errors ip =
     (case ip of (index, product) \<Rightarrow>
        (if lr_productId product = []
         then [''Product '' @ toString (int index + 1) @ '': productId is required''] else [])
        @ (if lr_name product = []
           then [''Product '' @ toString (int index + 1) @ '': name is required''] else [])
        @ (if lr_quantity product \<le> 0
           then [''Product '' @ toString (int index + 1) @ '': valid quantity is required''] else [])
        @ (case lr_unitPrice product of
             None \<Rightarrow> [''Product '' @ toString (int index + 1) @ '': valid unitPrice is required'']
           | Some u \<Rightarrow>
               if u < 0
               then [''Product '' @ toString (int index + 1) @ '': valid unitPrice is required'']
               else []))"

definition validateInvoiceData :: "invoice_request \<Rightarrow> string option" where
  \<comment> \<open>\<open>Some m\<close> when the validation throws the error of message \<open>m\<close>\<close>
  "validateInvoiceData data =
     (let errors =
            (if rq_clientId data = [] then [''Client ID is required''] else [])
            @ (if rq_clientName data = [] then [''Client name is required''] else [])
            @ (if rq_products data = [] then [''Products array is required'']
               else concat (map line_errors (enumerate 0 (rq_products data))))
      in if errors \<noteq> [] then Some (''Validation failed: '' @ join '', '' errors) else None)"

definition pending_line :: "line_request \<Rightarrow> invoice_line" where
  "pending_line product =
     \<lparr>il_productId = lr_productId product, il_name = lr_name product,
      il_quantity = lr_quantity product, il_unitPrice = or_zero (lr_unitPrice product),
      il_total = or_zero (lr_unitPrice product) * lr_quantity product\<rparr>"

definition createInvoice :: "env \<Rightarrow> db \<Rightarrow> invoice_request \<Rightarrow> db \<times> (string \<times> invoice) outcome" where
  "createInvoice e d data =
     (case validateInvoiceData data of
        Some m \<Rightarrow> (d, Threw (''Failed to create invoice: '' @ m))
      | None \<Rightarrow>
          if \<not> (rq_clientId data \<in> set (clients d))
          then (d, Threw (''Failed to create invoice: Client '' @ rq_clientId data @ '' not found''))
          else
            (let productsWithTotals = map pending_line (rq_products data);
                 total = sum_list (map il_total productsWithTotals);
                 remise = or_zero (rq_remise data);
                 advance = or_zero (rq_advance data);
                 totalAfterDiscount = total - remise;
                 rest = totalAfterDiscount - advance;
                 invoiceId = generateInvoiceId (fetched_ids e d) (e_now e);
                 invoiceData =
                   \<lparr>inv_clientId = rq_clientId data, inv_clientName = rq_clientName data,
                    inv_products = productsWithTotals, inv_remise = remise, inv_advance = advance,
                    inv_total = total, inv_totalAfterDiscount = totalAfterDiscount,
                    inv_rest = rest, inv_status = ''pending'', inv_paid = None\<rparr>
             in (d\<lparr>invoices := set_doc invoiceId invoiceData (invoices d)\<rparr>,
                 Returned (invoiceId, invoiceData))))"

datatype response =
    Status201 string invoice
  | Status400 string "string list"
  | Status500 string

definition stock_of :: "product \<Rightarrow> int" where
  \<comment> \<open>\<^verbatim>\<open>product.q || product.quantity || 0\<close>\<close>
  "stock_of product = or_zero (js_or (p_q product) (p_quantity product))"

definition confirmed_errors :: "nat \<Rightarrow> (string \<times> product) list \<Rightarrow> line_request \<Rightarrow> string list" where
  \<comment> \<open>the validation errors one item adds in \<^verbatim>\<open>createConfirmedInvoice\<close>\<close>
  "confirmed_errors now ps item =
     (case get_doc ps (lr_productId item) of
        None \<Rightarrow>
          [''Product '' @ quoted (if lr_name item = [] then lr_productId item else lr_name item)
           @ '' not found'']
      | Some product \<Rightarrow>
          (if stock_of product < lr_quantity item
           then [''Insufficient stock for '' @ lr_name item @ ''. Available: ''
                 @ toString (stock_of product) @ '', Requested: '' @ toString (lr_quantity item)]
           else [])
          @ (case p_expiryDate product of
               None \<Rightarrow> []
             | Some expiryDate \<Rightarrow>
                 if expiryDate < int now
                 then [''Product '' @ quoted (lr_name item) @ '' has expired (Expiry: ''
                       @ toString expiryDate @ '')'']
                 else [])
          @ (if or_zero (js_or (p_price product) (p_unitPrice product)) \<le> 0
             then [''Product '' @ quoted (lr_name item) @ '' has invalid price: $''
                   @ toString (or_zero (js_or (p_price product) (p_unitPrice product)))]
             else []))"

definition confirmed_line :: "line_request \<times> product \<Rightarrow> invoice_line" where
  "confirmed_line ip =
     (case ip of (product, productDetail) \<Rightarrow>
        (let productPrice =
               or_zero (js_or (js_or (p_price productDetail) (p_unitPrice productDetail))
                              (lr_unitPrice product))
         in \<lparr>il_productId = lr_productId product, il_name = lr_name product,
             il_quantity = lr_quantity product, il_unitPrice = productPrice,
             il_total = productPrice * lr_quantity product\<rparr>))"

definition confirmed_debit :: "line_request \<times> product \<Rightarrow> batch_write" where
  "confirmed_debit ip =
     (case ip of (item, productDetail) \<Rightarrow>
        SetQ (lr_productId item) (stock_of productDetail - lr_quantity item))"

text \<open>
  In \<^verbatim>\<open>createConfirmedInvoice\<close> the list \<^verbatim>\<open>productsWithDetails\<close> receives one entry
  per product that exists; past the validation every product exists, and the list is
  read at the index of the item.
\<close>

definition createConfirmedInvoice :: "env \<Rightarrow> db \<Rightarrow> invoice_request \<Rightarrow> db \<times> response" where
  "createConfirmedInvoice e d invoiceData =
     (if rq_clientId invoiceData = [] \<or> rq_products invoiceData = []
      then (d, Status400 ''Client ID and products are required'' [])
      else if \<not> (rq_clientId invoiceData \<in> set (clients d))
      then (d, Status400 (''Client '' @ rq_clientId invoiceData @ '' not found'') [])
      else if list_ex (\<lambda>item. lr_productId item = []) (rq_products invoiceData)
      then (d, Status500 invalid_path)
      else
        (let validationErrors =
               concat (map (confirmed_errors (e_now e) (products d)) (rq_products invoiceData));
             productsWithDetails =
               List.map_filter (\<lambda>item. get_doc (products d) (lr_productId item))
                 (rq_products invoiceData)
         in if validationErrors \<noteq> []
            then (d, Status400 ''Product validation failed'' validationErrors)
            else
              (let invoiceId = generateInvoiceId (fetched_ids e d) (e_now e);
                   productsWithTotals =
                     map confirmed_line (zip (rq_products invoiceData) productsWithDetails);
                   total = sum_list (map il_total productsWithTotals);
                   remise = or_zero (rq_remise invoiceData);
                   advance = or_zero (rq_advance invoiceData);
                   totalAfterDiscount = total - remise;
                   rest = totalAfterDiscount - advance;
                   status = (if rest = 0 then ''paid'' else ''not paid'');
                   batch = map confirmed_debit (zip (rq_products invoiceData) productsWithDetails);
                   confirmedInvoice =
                     \<lparr>inv_clientId = rq_clientId invoiceData,
                      inv_clientName = rq_clientName invoiceData,
                      inv_products = productsWithTotals, inv_remise = remise,
                      inv_advance = advance, inv_total = total,
                      inv_totalAfterDiscount = totalAfterDiscount, inv_rest = rest,
                      inv_status = status, inv_paid = Some (rest = 0)\<rparr>
               in (commit (batch @ [SetInvoice invoiceId confirmedInvoice]) d,
                   Status201 (''Invoice created successfully with status: '' @ status)
                     confirmedInvoice))))"

definition resolve_product :: "(string \<times> product) list \<Rightarrow> line_request \<Rightarrow> (string \<times> product) option" where
  \<comment> \<open>the product of a new line: by identifier when the line has one, else the first
      product of that name\<close>
  "resolve_product ps newProduct =
     (if lr_productId newProduct = []
      then find (\<lambda>kp. p_name (snd kp) = lr_name newProduct) ps
      else (case get_doc ps (lr_productId newProduct) of
              None \<Rightarrow> None
            | Some productData \<Rightarrow> Some (lr_productId newProduct, productData)))"

definition currentStock :: "product \<Rightarrow> int" where
  \<comment> \<open>\<^verbatim>\<open>productData.q || productData.quantity || productData.currentStock || 0\<close>\<close>
  "currentStock productData =
     or_zero (js_or (js_or (p_q productData) (p_quantity productData)) (p_currentStock productData))"

definition originalQuantity :: "invoice_line list \<Rightarrow> string \<Rightarrow> string \<Rightarrow> int" where
  "originalQuantity original productId name =
     (case find (\<lambda>p. il_productId p = productId \<or> il_name p = name) original of
        None \<Rightarrow> 0
      | Some originalProduct \<Rightarrow> il_quantity originalProduct)"

definition quantityDifference :: "invoice_line list \<Rightarrow> string \<Rightarrow> line_request \<Rightarrow> int" where
  "quantityDifference original productId newProduct =
     lr_quantity newProduct - originalQuantity original productId (lr_name newProduct)"

definition productPrice :: "line_request \<Rightarrow> product \<Rightarrow> int" where
  "productPrice newProduct productData =
     or_zero (js_or (js_or (lr_unitPrice newProduct) (lr_price newProduct)) (p_price productData))"

definition update_line ::
  "(string \<times> product) list \<Rightarrow> invoice_line list \<Rightarrow> line_request
   \<Rightarrow> string list \<times> invoice_line list \<times> stock_update list" where
  \<comment> \<open>one turn of the loop of \<^verbatim>\<open>updateInvoice\<close>: what it pushes on
      \<^verbatim>\<open>validationErrors\<close>, \<^verbatim>\<open>productsWithTotals\<close> and \<^verbatim>\<open>stockUpdates\<close>\<close>
  "update_line ps original newProduct =
     (if lr_name newProduct = [] then ([''Product name is required''], [], [])
      else case resolve_product ps newProduct of
        None \<Rightarrow>
          ([''Product '' @ quoted (lr_name newProduct)
            @ (if lr_productId newProduct = [] then '' not found in database'' else '' not found'')],
           [], [])
      | Some (productId, productData) \<Rightarrow>
          if quantityDifference original productId newProduct > 0
             \<and> currentStock productData < quantityDifference original productId newProduct
          then ([''Insufficient stock for '' @ lr_name newProduct @ ''. Available: ''
                 @ toString (currentStock productData) @ '', Needed additional: ''
                 @ toString (quantityDifference original productId newProduct)], [], [])
          else
            ((if productPrice newProduct productData \<le> 0
              then [''Product '' @ quoted (lr_name newProduct) @ '' has invalid price: $''
                    @ toString (productPrice newProduct productData)]
              else []),
             [\<lparr>il_productId = productId, il_name = lr_name newProduct,
               il_quantity = lr_quantity newProduct,
               il_unitPrice = productPrice newProduct productData,
               il_total = productPrice newProduct productData * lr_quantity newProduct\<rparr>],
             (if quantityDifference original productId newProduct = 0 then []
              else [\<lparr>su_productId = productId, su_productName = lr_name newProduct,
                     su_currentStock = currentStock productData,
                     su_quantityDifference = quantityDifference original productId newProduct,
                     su_newStock = currentStock productData
                                   - quantityDifference original productId newProduct\<rparr>])))"

definition stock_write :: "stock_update \<Rightarrow> batch_write" where
  "stock_write update = SetQ (su_productId update) (su_newStock update)"

definition update_turns ::
  "db \<Rightarrow> invoice \<Rightarrow> update_request \<Rightarrow> (string list \<times> invoice_line list \<times> stock_update list) list" where
  \<comment> \<open>the turns of the loop over \<^verbatim>\<open>data.products\<close>; none when the products are not replaced\<close>
  "update_turns d currentInvoice data =
     (case ud_products data of
        None \<Rightarrow> []
      | Some newProducts \<Rightarrow> map (update_line (products d) (inv_products currentInvoice)) newProducts)"

definition updateData ::
  "invoice \<Rightarrow> update_request \<Rightarrow> (string list \<times> invoice_line list \<times> stock_update list) list
   \<Rightarrow> invoice_update" where
  "updateData currentInvoice data turns =
     (let productsWithTotals = (case ud_products data of
                                  None \<Rightarrow> inv_products currentInvoice
                                | Some newProducts \<Rightarrow> concat (map (\<lambda>t. fst (snd t)) turns));
          total = (case ud_products data of
                     None \<Rightarrow> inv_total currentInvoice
                   | Some newProducts \<Rightarrow> sum_list (map il_total productsWithTotals));
          remise = (case ud_remise data of None \<Rightarrow> inv_remise currentInvoice | Some r \<Rightarrow> r);
          advance = (case ud_advance data of None \<Rightarrow> inv_advance currentInvoice | Some a \<Rightarrow> a);
          totalAfterDiscount = total - remise;
          rest = max 0 (totalAfterDiscount - advance);
          status = (if rest = 0 then ''paid'' else ''not paid'')
      in \<lparr>u_products = productsWithTotals, u_total = total,
          u_totalAfterDiscount = totalAfterDiscount, u_rest = rest,
          u_status = status, u_paid = (rest = 0),
          u_remise = ud_remise data, u_advance = ud_advance data\<rparr>)"

definition updateInvoice :: "db \<Rightarrow> string \<Rightarrow> update_request \<Rightarrow> db \<times> (string \<times> nat) outcome" where
  \<comment> \<open>returns the identifier of the invoice and the number of stock updates\<close>
  "updateInvoice d iid data =
     (if iid = [] then (d, Threw ''Failed to update invoice: Invoice ID is required'')
      else if trim (toUpperCase iid) = []
      then (d, Threw (''Failed to update invoice: '' @ invalid_path))
      else case get_doc (invoices d) (trim (toUpperCase iid)) of
        None \<Rightarrow>
          (d, Threw (''Failed to update invoice: Invoice '' @ trim (toUpperCase iid) @ '' not found''))
      | Some currentInvoice \<Rightarrow>
          if ud_products data = Some []
          then (d, Threw ''Failed to update invoice: Products array cannot be empty'')
          else
            (let turns = update_turns d currentInvoice data;
                 validationErrors = concat (map fst turns);
                 stockUpdates = concat (map (\<lambda>t. snd (snd t)) turns)
             in if validationErrors \<noteq> []
                then (d, Threw (''Failed to update invoice: Product validation failed: ''
                                @ join ''; '' validationErrors))
                else
                  (commit (map stock_write stockUpdates
                           @ [UpdateInvoice (trim (toUpperCase iid))
                                (updateData currentInvoice data turns)]) d,
                   Returned (trim (toUpperCase iid), length stockUpdates))))"




fun restore_writes :: "(string \<times> product) list \<Rightarrow> invoice_line list \<Rightarrow> string + batch_write list" where
  \<comment> \<open>the loop of \<^verbatim>\<open>deleteInvoice\<close>: the writes it stages, or the error it throws\<close>
  "restore_writes ps [] = Inr []"
| "restore_writes ps (item # items) =
     (if il_productId item = [] then Inl invalid_path
      else case restore_writes ps items of
        Inl m \<Rightarrow> Inl m
      | Inr batch \<Rightarrow>
          Inr ((case get_doc ps (il_productId item) of
                  None \<Rightarrow> []
                | Some product \<Rightarrow> [SetQ (il_productId item) (stock_of product + il_quantity item)])
               @ batch))"

definition staged_restoration :: "db \<Rightarrow> invoice \<Rightarrow> string + batch_write list" where
  \<comment> \<open>the batch of \<^verbatim>\<open>deleteInvoice\<close> when it reaches the deletion\<close>
  "staged_restoration d invoice =
     (if inv_status invoice = ''confirmed''
      then restore_writes (products d) (inv_products invoice) else Inr [])"

text \<open>
  \<^verbatim>\<open>deleteInvoice\<close> stages the restoring writes on a batch and then deletes the invoice
  through the model; it never calls \<^verbatim>\<open>batch.commit()\<close>, so the staged writes are
  dropped when the function returns.
\<close>

definition deleteInvoice :: "db \<Rightarrow> string \<Rightarrow> db \<times> string outcome" where
  "deleteInvoice d iid =
     (if iid = [] then (d, Threw ''Failed to delete invoice: Invoice ID is required'')
      else case get_doc (invoices d) iid of
        None \<Rightarrow> (d, Threw ''Failed to delete invoice: Invoice not found'')
      | Some invoice \<Rightarrow>
          (case staged_restoration d invoice of
             Inl m \<Rightarrow> (d, Threw (''Failed to delete invoice: '' @ m))
           | Inr batch \<Rightarrow> (d\<lparr>invoices := delete_doc iid (invoices d)\<rparr>, Returned iid)))"

section \<open>Notions used to state the results\<close>

definition reversal :: "db \<Rightarrow> movement \<Rightarrow> db \<times> ledger_result list" where
  \<comment> \<open>the ledger call of \<^verbatim>\<open>deleteMovement\<close> for a movement of one of the two types\<close>
  "reversal d m =
     (if mv_type m = ''stock_in'' then removeQuantitiesFromProducts d (reversal_items m)
      else addQuantitiesToProducts d (reversal_items m))"

fun product_key :: "batch_write \<Rightarrow> string option" where
  \<comment> \<open>the product a staged write changes\<close>
  "product_key (SetQ k v) = Some k"
| "product_key (SetQAndQuantity k v) = Some k"
| "product_key w = None"

fun product_effect :: "batch_write \<Rightarrow> product \<Rightarrow> product" where
  \<comment> \<open>what a staged write does to the product it changes\<close>
  "product_effect (SetQ k v) p = p\<lparr>p_q := Some v\<rparr>"
| "product_effect (SetQAndQuantity k v) p = p\<lparr>p_q := Some v, p_quantity := Some v\<rparr>"
| "product_effect w p = p"


section \<open>Example stores\<close>

definition widget_15 :: product where
  "widget_15 = \<lparr>p_name = ''Widget'', p_q = Some 15, p_quantity = Some 15, p_currentStock = None,
                p_price = Some 4, p_unitPrice = None, p_expiryDate = None\<rparr>"

definition gadget_3 :: product where
  "gadget_3 = \<lparr>p_name = ''Gadget'', p_q = Some 3, p_quantity = Some 3, p_currentStock = None,
               p_price = Some 7, p_unitPrice = None, p_expiryDate = None\<rparr>"

definition received :: movement where
  \<comment> \<open>a stock-in of five widgets and five gadgets, recorded at instant 1000\<close>
  "received =
     \<lparr>mv_type = ''stock_in'', mv_department = [], mv_supplier = ''ACME'', mv_stockManager = ''Alice'',
      mv_products =
        [\<lparr>sl_productId = ''prod-001'', sl_productName = ''Widget'', sl_quantity = 5, sl_unitPrice = 4,
          sl_total = 20, sl_previousStock = 10, sl_newStock = 15\<rparr>,
         \<lparr>sl_productId = ''prod-002'', sl_productName = ''Gadget'', sl_quantity = 5, sl_unitPrice = 7,
          sl_total = 35, sl_previousStock = 3, sl_newStock = 8\<rparr>],
      mv_totalValue = 55, mv_totalItems = 10, mv_timestamp = Some 1000\<rparr>"

definition depleted_store :: db where
  \<comment> \<open>the store after that stock-in, once the gadgets have gone down to three again\<close>
  "depleted_store =
     \<lparr>products = [(''prod-001'', widget_15), (''prod-002'', gadget_3)], invoices = [],
      stockMovements = [(''MOV000001'', received)], clients = [], counter = Some 1\<rparr>"

definition widget_new :: product where
  \<comment> \<open>a product as \<^verbatim>\<open>createProduct\<close> stores it: the count is in \<^verbatim>\<open>quantity\<close>, there is no \<^verbatim>\<open>q\<close>\<close>
  "widget_new = \<lparr>p_name = ''Widget'', p_q = None, p_quantity = Some 10, p_currentStock = None,
                 p_price = None, p_unitPrice = None, p_expiryDate = None\<rparr>"

definition new_store :: db where
  "new_store = \<lparr>products = [(''prod-001'', widget_new)], invoices = [], stockMovements = [],
                clients = [''cli-001''], counter = None\<rparr>"

definition clock :: env where
  "clock = \<lparr>e_now = 1000, e_id_store_fails = False\<rparr>"

definition stock_in_5 :: movement_request where
  "stock_in_5 = \<lparr>mr_type = ''stock_in'',
                 mr_products = [\<lparr>ml_productId = ''prod-001'', ml_quantity = 5, ml_price = None\<rparr>],
                 mr_stockManager = ''Alice'', mr_department = [], mr_supplier = ''ACME''\<rparr>"

definition distribute_20 :: movement_request where
  "distribute_20 = \<lparr>mr_type = ''distribution'',
                 mr_products = [\<lparr>ml_productId = ''prod-001'', ml_quantity = 20, ml_price = None\<rparr>],
                 mr_stockManager = ''Alice'', mr_department = ''Kitchen'', mr_supplier = []\<rparr>"

definition gizmo :: product where
  "gizmo = \<lparr>p_name = ''Gizmo'', p_q = Some 5, p_quantity = None, p_currentStock = None,
            p_price = Some 10, p_unitPrice = None, p_expiryDate = None\<rparr>"

definition sales_store :: db where
  "sales_store = \<lparr>products = [(''prod-003'', gizmo)], invoices = [], stockMovements = [],
                  clients = [''cli-001''], counter = None\<rparr>"

definition overpaid_order :: invoice_request where
  \<comment> \<open>one gizmo at 10, with an advance of 15\<close>
  "overpaid_order =
     \<lparr>rq_clientId = ''cli-001'', rq_clientName = ''Ada'',
      rq_products = [\<lparr>lr_productId = ''prod-003'', lr_name = ''Gizmo'', lr_quantity = 1,
                      lr_unitPrice = Some 10, lr_price = None\<rparr>],
      rq_remise = None, rq_advance = Some 15\<rparr>"

definition sale :: invoice where
  \<comment> \<open>a confirmed invoice for three gizmos\<close>
  "sale =
     \<lparr>inv_clientId = ''cli-001'', inv_clientName = ''Ada'',
      inv_products = [\<lparr>il_productId = ''prod-003'', il_name = ''Gizmo'', il_quantity = 3,
                       il_unitPrice = 10, il_total = 30\<rparr>],
      inv_remise = 0, inv_advance = 0, inv_total = 30, inv_totalAfterDiscount = 30,
      inv_rest = 30, inv_status = ''confirmed'', inv_paid = None\<rparr>"

definition confirmed_store :: db where
  \<comment> \<open>the store after that invoice was confirmed: two gizmos are left\<close>
  "confirmed_store =
     \<lparr>products = [(''prod-003'', gizmo\<lparr>p_q := Some 2\<rparr>)], invoices = [(''INV-001'', sale)],
      stockMovements = [], clients = [''cli-001''], counter = None\<rparr>"

definition pay_10 :: update_request where
  \<comment> \<open>an update that only records an advance of 10\<close>
  "pay_10 = \<lparr>ud_products = None, ud_remise = None, ud_advance = Some 10\<rparr>"




section \<open>Evaluation and store lemmas\<close>

lemma replicate_numeral:
  "replicate (numeral k) x = x # replicate (pred_numeral k) x"
  by (simp add: numeral_eq_Suc)

lemma toString_digits:
  "toString 0 = ''0''" "toString 1 = ''1''" "toString 2 = ''2''" "toString 3 = ''3''"
  "toString 4 = ''4''" "toString 5 = ''5''" "toString 10 = ''10''" "toString 15 = ''15''"
  by (simp_all add: toString_def toString_radix.simps digit_char_def)

lemmas id_eval =
  generateInvoiceId_def highestNumber_def parseInt_def is_digit_def padStart_def
  toString_radix.simps digit_char_def replicate_numeral matched_suffixes_def

lemmas store_eval =
  truthy_def js_or_def or_zero_def get_doc_def update_doc_def set_doc_def delete_doc_def
  commit_def padStart_def replicate_numeral trim_def is_space_def toString_digits

lemmas ledger_eval =
  addQuantitiesToProducts_def removeQuantitiesFromProducts_def ledger_loop_def add_item_def
  remove_item_def success_def failure_def

lemmas movement_eval =
  deleteMovement_def finish_delete_def reversal_items_def failedOperations_def errorMessages_def
  too_old_def hoursDiff_def reversal_def

lemmas depleted_defs = depleted_store_def received_def widget_15_def gadget_3_def

lemma get_update_doc:
  "get_doc (update_doc k f c) k' = (if k' = k then map_option f (get_doc c k') else get_doc c k')"
  by (induction c) (auto simp: get_doc_def update_doc_def)

lemma apply_write_stockMovements: "stockMovements (apply_write w d) = stockMovements d"
  by (cases w) simp_all

lemma commit_stockMovements: "stockMovements (commit batch d) = stockMovements d"
  unfolding commit_def
  by (induction batch arbitrary: d) (simp_all add: apply_write_stockMovements)

lemma apply_write_other_product:
  "product_key w \<noteq> Some pid \<Longrightarrow> get_doc (products (apply_write w d)) pid = get_doc (products d) pid"
  by (cases w) (simp_all add: get_update_doc)

lemma commit_other_product:
  "\<forall>w\<in>set batch. product_key w \<noteq> Some pid \<Longrightarrow>
   get_doc (products (commit batch d)) pid = get_doc (products d) pid"
  unfolding commit_def
  by (induction batch arbitrary: d) (simp_all add: apply_write_other_product)

section \<open>Invoice identifiers: results\<close>

lemma Max_insert_max:
  "finite S \<Longrightarrow> Max (insert (max a b) S) = Max (insert a (insert b S))"
  by (cases "S = {}") (auto simp: max.assoc)

lemma foldl_highest:
  "foldl (\<lambda>h i. case match_invoice_number i of
                   None \<Rightarrow> h
                 | Some ds \<Rightarrow> (if parseInt ds > h then parseInt ds else h)) h0 ids
   = Max (insert h0 (set (matched_suffixes ids)))"
proof (induction ids arbitrary: h0)
  case Nil
  show ?case by (simp add: matched_suffixes_def)
next
  case (Cons i ids)
  show ?case
  proof (cases "match_invoice_number i")
    case None
    then show ?thesis
      using Cons.IH [of h0] by (simp add: matched_suffixes_def)
  next
    case (Some ds)
    have step: "(if parseInt ds > h0 then parseInt ds else h0) = max h0 (parseInt ds)"
      by (simp add: max_def)
    have "Max (insert (max h0 (parseInt ds)) (set (matched_suffixes ids)))
          = Max (insert h0 (insert (parseInt ds) (set (matched_suffixes ids))))"
      by (rule Max_insert_max) simp
    then show ?thesis
      using Some Cons.IH [of "max h0 (parseInt ds)"] step
      by (simp add: matched_suffixes_def)
  qed
qed

lemma highestNumber_Max:
  "highestNumber ids = Max (insert 0 (set (matched_suffixes ids)))"
  unfolding highestNumber_def by (rule foldl_highest)

lemma highestNumber_code_number:
  "ids \<noteq> [] \<Longrightarrow>
   (if highestNumber ids > 0 then highestNumber ids else length ids) = code_invoice_number ids"
proof (cases "matched_suffixes ids = []")
  case True
  then show ?thesis
    by (simp add: highestNumber_Max code_invoice_number_def)
next
  case False
  then have m: "Max (insert 0 (set (matched_suffixes ids))) = Max (set (matched_suffixes ids))"
    by simp
  have "(0 < Max (set (matched_suffixes ids))) = (\<exists>n\<in>set (matched_suffixes ids). 0 < n)"
    using False by (simp add: Max_gr_iff)
  then show ?thesis
    unfolding highestNumber_Max m code_invoice_number_def list_ex_iff by auto
qed

text \<open>
  C10, as the specification words it, fails: with the single invoice \<open>INV-000\<close> the
  largest matched suffix is 0, the rule of the specification gives \<open>INV-001\<close>, and the
  code, which takes a largest suffix of 0 for no suffix at all, counts the invoices and
  returns \<open>INV-002\<close>.
\<close>

theorem generateInvoiceId_zero_suffix_counterexample:
  "generateInvoiceId (Some [''INV-000'']) 0 = ''INV-002''
   \<and> ''INV-'' @ padStart 3 (CHR ''0'') (toString_radix 10 (spec_invoice_number [''INV-000''] + 1))
       = ''INV-001''"
  by (simp add: id_eval spec_invoice_number_def)

text \<open>
  C10 (amended): on the path where the invoices are read, \<open>generateInvoiceId\<close> returns
  \<open>INV-\<close> followed by the decimal of \<open>N + 1\<close> padded with zeros to three digits, where
  \<open>N\<close> is the largest numeric suffix matched over the existing identifiers when some
  matched suffix is positive, and the number of existing invoices otherwise; with no
  invoice the result is \<open>INV-001\<close>.
\<close>

theorem generateInvoiceId_sequential:
  "generateInvoiceId (Some ids) now
     = ''INV-'' @ padStart 3 (CHR ''0'') (toString_radix 10 (code_invoice_number ids + 1))
   \<and> generateInvoiceId (Some []) now = ''INV-001''"
proof -
  have a: "generateInvoiceId (Some ids) now
     = ''INV-'' @ padStart 3 (CHR ''0'') (toString_radix 10 (code_invoice_number ids + 1))"
  proof (cases "ids = []")
    case True
    then show ?thesis
      by (simp add: generateInvoiceId_def code_invoice_number_def matched_suffixes_def)
  next
    case False
    have "(if highestNumber ids > 0 then highestNumber ids + 1 else length ids + 1)
          = (if highestNumber ids > 0 then highestNumber ids else length ids) + 1"
      by simp
    then show ?thesis
      using False highestNumber_code_number [OF False]
      by (simp add: generateInvoiceId_def Let_def)
  qed
  have b: "generateInvoiceId (Some []) now = ''INV-001''"
    by (simp add: id_eval)
  from a b show ?thesis by simp
qed

theorem generateInvoiceId_sequential_witness:
  "generateInvoiceId (Some [''INV-007'', ''inv-012x'', ''zzz'']) 5 = ''INV-013''"
proof -
  have "code_invoice_number [''INV-007'', ''inv-012x'', ''zzz''] = 12"
    by (simp add: code_invoice_number_def id_eval)
  then show ?thesis
    using generateInvoiceId_sequential [of "[''INV-007'', ''inv-012x'', ''zzz'']" 5]
    by (simp add: padStart_def toString_radix.simps digit_char_def)
qed

section \<open>Deleting a stock movement: results\<close>

lemma too_old_iff:
  "too_old now m
   = (case mv_timestamp m of None \<Rightarrow> False | Some ts \<Rightarrow> int now - ts > 24 * 60 * 60 * 1000)"
  by (auto simp: too_old_def hoursDiff_def field_simps split: option.splits)

text \<open>
  C9: a movement whose timestamp lies more than 24 hours (86400000 ms) before the
  current time is not deleted: \<open>deleteMovement\<close> fails with the code
  \<open>MOVEMENT_TOO_OLD\<close> and returns the store as it was, so no product quantity changes
  and the movement document stays.
\<close>

theorem deleteMovement_too_old:
  assumes "mid \<noteq> []"
      and "get_doc (stockMovements d) mid = Some m"
      and "mv_timestamp m = Some ts"
      and "int now - ts > 24 * 60 * 60 * 1000"
  shows "deleteMovement now d mid
         = (d, DeleteFailed MOVEMENT_TOO_OLD ''Cannot delete movement older than 24 hours''
                 [''Only movements from the last 24 hours can be deleted''])"
proof -
  have "too_old now m"
    using assms(3,4) by (simp add: too_old_iff)
  then show ?thesis
    using assms(1,2) by (simp add: deleteMovement_def)
qed

theorem deleteMovement_too_old_witness:
  "deleteMovement 86401001 depleted_store ''MOV000001''
   = (depleted_store, DeleteFailed MOVEMENT_TOO_OLD ''Cannot delete movement older than 24 hours''
        [''Only movements from the last 24 hours can be deleted''])"
  by (rule deleteMovement_too_old [where m = received and ts = 1000])
     (simp_all add: depleted_defs get_doc_def)

lemma remove_item_writes:
  "w \<in> set (snd (remove_item ps i)) \<Longrightarrow>
   r_success (fst (remove_item ps i)) \<and> product_key w = Some (r_productId (fst (remove_item ps i)))"
  by (cases i) (auto simp: remove_item_def success_def failure_def Let_def split: if_splits option.splits)

lemma add_item_writes:
  "w \<in> set (snd (add_item ps i)) \<Longrightarrow>
   r_success (fst (add_item ps i)) \<and> product_key w = Some (r_productId (fst (add_item ps i)))"
  by (cases i) (auto simp: add_item_def success_def failure_def Let_def split: if_splits option.splits)

lemma ledger_loop_writes:
  assumes "\<And>w i. w \<in> set (snd (step ps i)) \<Longrightarrow>
             r_success (fst (step ps i)) \<and> product_key w = Some (r_productId (fst (step ps i)))"
      and "w \<in> set (snd (ledger_loop step ps items))"
  shows "\<exists>r\<in>set (fst (ledger_loop step ps items)). r_success r \<and> product_key w = Some (r_productId r)"
  using assms by (auto simp: ledger_loop_def)

lemma reversal_unaffected:
  assumes "\<forall>r\<in>set (snd (reversal d m)). r_success r \<longrightarrow> r_productId r \<noteq> pid"
  shows "get_doc (products (fst (reversal d m))) pid = get_doc (products d) pid"
proof (cases "mv_type m = ''stock_in''")
  case True
  have "\<forall>w\<in>set (snd (ledger_loop remove_item (products d) (reversal_items m))). product_key w \<noteq> Some pid"
    using assms True ledger_loop_writes [of remove_item "products d", OF remove_item_writes]
    by (fastforce simp: reversal_def removeQuantitiesFromProducts_def split: prod.splits)
  then show ?thesis
    using True
    by (simp add: reversal_def removeQuantitiesFromProducts_def commit_other_product split: prod.splits)
next
  case False
  have "\<forall>w\<in>set (snd (ledger_loop add_item (products d) (reversal_items m))). product_key w \<noteq> Some pid"
    using assms False ledger_loop_writes [of add_item "products d", OF add_item_writes]
    by (fastforce simp: reversal_def addQuantitiesToProducts_def split: prod.splits)
  then show ?thesis
    using False
    by (simp add: reversal_def addQuantitiesToProducts_def commit_other_product split: prod.splits)
qed

lemma reversal_stockMovements: "stockMovements (fst (reversal d m)) = stockMovements d"
  by (simp add: reversal_def removeQuantitiesFromProducts_def addQuantitiesToProducts_def
      commit_stockMovements split: prod.splits)

lemma apply_write_this_product:
  "product_key w = Some k \<Longrightarrow>
   get_doc (products (apply_write w d)) k = map_option (product_effect w) (get_doc (products d) k)"
  by (cases w; cases "get_doc (products d) k") (simp_all add: get_update_doc)

lemma product_effect_idem: "product_effect w (product_effect w p) = product_effect w p"
  by (cases w) simp_all

lemma commit_single_writer:
  assumes "w \<in> set batch" and "product_key w = Some k"
      and "\<forall>w'\<in>set batch. product_key w' = Some k \<longrightarrow> w' = w"
  shows "get_doc (products (commit batch d)) k = map_option (product_effect w) (get_doc (products d) k)"
  using assms
proof (induction batch arbitrary: d)
  case Nil
  then show ?case by simp
next
  case (Cons w' batch)
  have step: "commit (w' # batch) d = commit batch (apply_write w' d)"
    by (simp add: commit_def)
  have rest: "\<forall>x\<in>set batch. product_key x = Some k \<longrightarrow> x = w"
    using Cons.prems(3) by simp
  show ?case
  proof (cases "product_key w' = Some k")
    case True
    then have w': "w' = w"
      using Cons.prems(3) by simp
    have now: "get_doc (products (apply_write w d)) k
               = map_option (product_effect w) (get_doc (products d) k)"
      using Cons.prems(2) by (rule apply_write_this_product)
    show ?thesis
    proof (cases "w \<in> set batch")
      case True
      have "get_doc (products (commit batch (apply_write w d))) k
            = map_option (product_effect w) (get_doc (products (apply_write w d)) k)"
        using Cons.IH [OF True Cons.prems(2) rest] .
      then have "get_doc (products (commit batch (apply_write w d))) k
                 = map_option (product_effect w) (get_doc (products d) k)"
        unfolding now by (simp add: option.map_comp comp_def product_effect_idem)
      then show ?thesis
        unfolding step unfolding w' .
    next
      case False
      then have "\<forall>x\<in>set batch. product_key x \<noteq> Some k"
        using rest by auto
      then have "get_doc (products (commit batch (apply_write w d))) k
                 = get_doc (products (apply_write w d)) k"
        by (rule commit_other_product)
      then have "get_doc (products (commit batch (apply_write w d))) k
                 = map_option (product_effect w) (get_doc (products d) k)"
        unfolding now .
      then show ?thesis
        unfolding step unfolding w' .
    qed
  next
    case False
    then have mem: "w \<in> set batch"
      using Cons.prems(1,2) by auto
    have "get_doc (products (apply_write w' d)) k = get_doc (products d) k"
      using False by (rule apply_write_other_product)
    then show ?thesis
      unfolding step using Cons.IH [OF mem Cons.prems(2) rest, of "apply_write w' d"] by simp
  qed
qed

lemma remove_item_success:
  assumes "r_success (fst (remove_item ps i))"
  shows "\<exists>p v. get_doc ps (fst i) = Some p \<and> snd (remove_item ps i) = [SetQAndQuantity (fst i) v]
           \<and> r_newQuantity (fst (remove_item ps i)) = Some v
           \<and> r_productId (fst (remove_item ps i)) = fst i"
  using assms
  by (cases i) (auto simp: remove_item_def success_def failure_def Let_def split: if_splits option.splits)

lemma add_item_success:
  assumes "r_success (fst (add_item ps i))"
  shows "\<exists>p v. get_doc ps (fst i) = Some p \<and> snd (add_item ps i) = [SetQ (fst i) v]
           \<and> r_newQuantity (fst (add_item ps i)) = Some v
           \<and> r_productId (fst (add_item ps i)) = fst i"
  using assms
  by (cases i) (auto simp: add_item_def success_def failure_def Let_def split: if_splits option.splits)

lemma remove_item_key:
  "w \<in> set (snd (remove_item ps i)) \<Longrightarrow> product_key w = Some (fst i)"
  by (cases i) (auto simp: remove_item_def success_def failure_def Let_def split: if_splits option.splits)

lemma add_item_key:
  "w \<in> set (snd (add_item ps i)) \<Longrightarrow> product_key w = Some (fst i)"
  by (cases i) (auto simp: add_item_def success_def failure_def Let_def split: if_splits option.splits)

lemma ledger_loop_committed:
  assumes key: "\<And>w j. w \<in> set (snd (step ps j)) \<Longrightarrow> product_key w = Some (fst j)"
      and dist: "distinct (map fst items)"
      and i: "i \<in> set items"
      and one: "snd (step ps i) = [w]"
  shows "get_doc (products (commit (snd (ledger_loop step ps items)) d)) (fst i)
         = map_option (product_effect w) (get_doc (products d) (fst i))"
proof (rule commit_single_writer)
  show "w \<in> set (snd (ledger_loop step ps items))"
    using i one by (force simp: ledger_loop_def)
  show "product_key w = Some (fst i)"
    using key [of w i] one by simp
  show "\<forall>w'\<in>set (snd (ledger_loop step ps items)). product_key w' = Some (fst i) \<longrightarrow> w' = w"
  proof (intro ballI impI)
    fix w' assume "w' \<in> set (snd (ledger_loop step ps items))" and k: "product_key w' = Some (fst i)"
    then obtain j where j: "j \<in> set items" and w': "w' \<in> set (snd (step ps j))"
      by (auto simp: ledger_loop_def)
    have "fst j = fst i"
      using key [OF w'] k by simp
    then have "j = i"
      using dist i j by (meson distinct_map inj_onD)
    then show "w' = w"
      using w' one by simp
  qed
qed

lemma reversal_applied:
  assumes dist: "distinct (map fst (reversal_items m))"
      and r: "r \<in> set (snd (reversal d m))" and ok: "r_success r"
  shows "map_option p_q (get_doc (products (fst (reversal d m))) (r_productId r))
         = Some (r_newQuantity r)"
proof (cases "mv_type m = ''stock_in''")
  case True
  then have results: "snd (reversal d m) = map (\<lambda>i. fst (remove_item (products d) i)) (reversal_items m)"
    and store: "fst (reversal d m)
                = commit (snd (ledger_loop remove_item (products d) (reversal_items m))) d"
    by (simp_all add: reversal_def removeQuantitiesFromProducts_def ledger_loop_def)
  obtain i where i: "i \<in> set (reversal_items m)" and ri: "r = fst (remove_item (products d) i)"
    using r unfolding results by auto
  obtain p v where p: "get_doc (products d) (fst i) = Some p"
    and w: "snd (remove_item (products d) i) = [SetQAndQuantity (fst i) v]"
    and new: "r_newQuantity r = Some v" and pid: "r_productId r = fst i"
    using remove_item_success [of "products d" i] ok ri by auto
  show ?thesis
    unfolding store pid
    using ledger_loop_committed
            [where step = remove_item and ps = "products d" and d = d, OF remove_item_key dist i w]
          p new
    by simp
next
  case False
  then have results: "snd (reversal d m) = map (\<lambda>i. fst (add_item (products d) i)) (reversal_items m)"
    and store: "fst (reversal d m)
                = commit (snd (ledger_loop add_item (products d) (reversal_items m))) d"
    by (simp_all add: reversal_def addQuantitiesToProducts_def ledger_loop_def)
  obtain i where i: "i \<in> set (reversal_items m)" and ri: "r = fst (add_item (products d) i)"
    using r unfolding results by auto
  obtain p v where p: "get_doc (products d) (fst i) = Some p"
    and w: "snd (add_item (products d) i) = [SetQ (fst i) v]"
    and new: "r_newQuantity r = Some v" and pid: "r_productId r = fst i"
    using add_item_success [of "products d" i] ok ri by auto
  show ?thesis
    unfolding store pid
    using ledger_loop_committed
            [where step = add_item and ps = "products d" and d = d, OF add_item_key dist i w]
          p new
    by simp
qed

text \<open>
  C2, as stated, fails: the ledger commits the reversal lines that succeed before it
  reports the one that fails. Deleting the stock-in \<open>MOV000001\<close> from
  \<open>depleted_store\<close> fails with \<open>STOCK_RESTORATION_FAILED\<close> on the gadgets, and the
  widgets have gone from 15 to 10 all the same.
\<close>

theorem deleteMovement_partial_reversal_counterexample:
  "snd (deleteMovement 2000 depleted_store ''MOV000001'')
     = DeleteFailed STOCK_RESTORATION_FAILED ''Failed to restore stock levels for some products''
         [''Product prod-002: Insufficient stock. Available: 3, Requested to remove: 5'']
   \<and> map_option p_q (get_doc (products depleted_store) ''prod-001'') = Some (Some 15)
   \<and> map_option p_q (get_doc (products (fst (deleteMovement 2000 depleted_store ''MOV000001''))) ''prod-001'')
       = Some (Some 10)"
  by (simp add: depleted_defs store_eval ledger_eval movement_eval Let_def)

text \<open>
  C2 (amended): when a movement of type \<open>stock_in\<close> or \<open>distribution\<close> is deleted
  within its 24 hours and at least one reversal line fails in the ledger,
  \<open>deleteMovement\<close> fails with the code \<open>STOCK_RESTORATION_FAILED\<close> and reports every
  failed line, the movement document is not deleted, and the store it leaves is the one
  the ledger call has committed: every product without a successful reversal line is
  unchanged, and, in a movement with one line per product, the product of every line
  that succeeded holds the new quantity the ledger reports for it.
\<close>

theorem deleteMovement_restoration_failed:
  assumes "mid \<noteq> []"
      and "get_doc (stockMovements d) mid = Some m"
      and "\<not> too_old now m"
      and "mv_type m = ''stock_in'' \<or> mv_type m = ''distribution''"
      and "failedOperations (snd (reversal d m)) \<noteq> []"
  shows "snd (deleteMovement now d mid)
           = DeleteFailed STOCK_RESTORATION_FAILED ''Failed to restore stock levels for some products''
               (errorMessages (failedOperations (snd (reversal d m))))
         \<and> stockMovements (fst (deleteMovement now d mid)) = stockMovements d
         \<and> fst (deleteMovement now d mid) = fst (reversal d m)
         \<and> (\<forall>pid. (\<forall>r\<in>set (snd (reversal d m)). r_success r \<longrightarrow> r_productId r \<noteq> pid)
                \<longrightarrow> get_doc (products (fst (deleteMovement now d mid))) pid
                    = get_doc (products d) pid)
         \<and> (distinct (map fst (reversal_items m)) \<longrightarrow>
               (\<forall>r\<in>set (snd (reversal d m)). r_success r \<longrightarrow>
                  map_option p_q (get_doc (products (fst (deleteMovement now d mid))) (r_productId r))
                  = Some (r_newQuantity r)))"
proof -
  have run: "deleteMovement now d mid = finish_delete mid (reversal d m)"
    using assms(1-4) by (auto simp: deleteMovement_def reversal_def)
  have fin: "finish_delete mid (reversal d m)
             = (fst (reversal d m),
                DeleteFailed STOCK_RESTORATION_FAILED ''Failed to restore stock levels for some products''
                  (errorMessages (failedOperations (snd (reversal d m)))))"
    using assms(5) by (cases "reversal d m") (simp add: finish_delete_def)
  show ?thesis
    using reversal_unaffected [of d m] reversal_applied [of m _ d]
    by (simp add: run fin reversal_stockMovements)
qed

theorem deleteMovement_restoration_failed_witness:
  "failedOperations (snd (reversal depleted_store received)) \<noteq> []
   \<and> snd (deleteMovement 2000 depleted_store ''MOV000001'')
       = DeleteFailed STOCK_RESTORATION_FAILED ''Failed to restore stock levels for some products''
           (errorMessages (failedOperations (snd (reversal depleted_store received))))
   \<and> stockMovements (fst (deleteMovement 2000 depleted_store ''MOV000001''))
       = stockMovements depleted_store
   \<and> get_doc (products (fst (deleteMovement 2000 depleted_store ''MOV000001''))) ''prod-002''
       = get_doc (products depleted_store) ''prod-002''
   \<and> map_option p_q (get_doc (products (fst (deleteMovement 2000 depleted_store ''MOV000001''))) ''prod-001'')
       = Some (Some 10)"
proof -
  have h1: "''MOV000001'' \<noteq> []" by simp
  have h2: "get_doc (stockMovements depleted_store) ''MOV000001'' = Some received"
    by (simp add: depleted_store_def get_doc_def)
  have h3: "\<not> too_old 2000 received"
    by (simp add: too_old_def hoursDiff_def received_def)
  have h4: "mv_type received = ''stock_in'' \<or> mv_type received = ''distribution''"
    by (simp add: received_def)
  have res: "map (\<lambda>r. (r_productId r, r_success r, r_newQuantity r)) (snd (reversal depleted_store received))
             = [(''prod-001'', True, Some 10), (''prod-002'', False, None)]"
    by (simp add: depleted_defs store_eval ledger_eval movement_eval Let_def)
  have h5: "failedOperations (snd (reversal depleted_store received)) \<noteq> []"
    by (simp add: depleted_defs store_eval ledger_eval movement_eval Let_def)
  have h6: "\<forall>r\<in>set (snd (reversal depleted_store received)). r_success r \<longrightarrow> r_productId r \<noteq> ''prod-002''"
    using res by auto
  have h7: "distinct (map fst (reversal_items received))"
    by (simp add: reversal_items_def received_def)
  have "\<exists>r\<in>set (snd (reversal depleted_store received)).
          r_success r \<and> r_productId r = ''prod-001'' \<and> r_newQuantity r = Some 10"
    using res by auto
  then obtain r where r: "r \<in> set (snd (reversal depleted_store received))" and ok: "r_success r"
    and pid: "r_productId r = ''prod-001''" and new: "r_newQuantity r = Some 10"
    by blast
  note inst = deleteMovement_restoration_failed [OF h1 h2 h3 h4 h5]
  have "map_option p_q (get_doc (products (fst (deleteMovement 2000 depleted_store ''MOV000001''))) (r_productId r))
        = Some (r_newQuantity r)"
    using inst h7 r ok by blast
  then have widgets: "map_option p_q (get_doc (products (fst (deleteMovement 2000 depleted_store ''MOV000001''))) ''prod-001'')
        = Some (Some 10)"
    by (simp add: pid new)
  show ?thesis
    using inst h5 h6 widgets by blast
qed

section \<open>Creating a stock movement: results\<close>

lemmas create_eval =
  createStockMovement_def validate_line_def getNextMovementId_def stored_line_def

lemmas new_store_defs = new_store_def widget_new_def clock_def stock_in_5_def distribute_20_def








text \<open>
  C3 fails on the code. A product as \<open>createProduct\<close> stores it carries its count in
  the field \<^verbatim>\<open>quantity\<close>. \<open>createStockMovement\<close> reads that field: the line of a
  stock-in of 5 on a count of 10 records \<open>previousStock = 10\<close> and \<open>newStock = 15\<close>. The
  ledger reads and writes the field \<^verbatim>\<open>q\<close>: it stores \<open>q = 0 + 5\<close> and leaves
  \<^verbatim>\<open>quantity\<close> at 10, so neither field holds the 15 of the line.
\<close>

theorem createStockMovement_stock_in_ledger_mismatch:
  "(case snd (createStockMovement clock new_store stock_in_5) of
      MovementCreated mid m msg \<Rightarrow>
        mid = ''MOV000001''
        \<and> map (\<lambda>l. (sl_productId l, sl_previousStock l, sl_quantity l, sl_newStock l)) (mv_products m)
            = [(''prod-001'', 10, 5, 15)]
    | MovementFailed msg \<Rightarrow> False)
   \<and> map_option p_q (get_doc (products (fst (createStockMovement clock new_store stock_in_5))) ''prod-001'')
       = Some (Some 5)
   \<and> map_option p_quantity (get_doc (products (fst (createStockMovement clock new_store stock_in_5))) ''prod-001'')
       = Some (Some 10)"
  by (simp add: new_store_defs store_eval ledger_eval create_eval Let_def)

section \<open>Invoices: evaluation\<close>

lemmas invoice_eval =
  createInvoice_def createConfirmedInvoice_def validateInvoiceData_def line_errors_def
  pending_line_def fetched_ids_def stock_of_def confirmed_errors_def confirmed_line_def
  confirmed_debit_def quoted_def enumerate_eq_zip

lemmas sales_defs = sales_store_def gizmo_def overpaid_order_def clock_def sale_def confirmed_store_def

lemma generateInvoiceId_first: "generateInvoiceId (Some []) n = ''INV-001''"
  by (simp add: id_eval)

text \<open>
  C4 fails on the code for \<open>createConfirmedInvoice\<close> (and likewise for
  \<open>createInvoice\<close>): both compute \<open>rest = total - remise - advance\<close> without the
  \<open>max 0\<close> that \<open>updateInvoice\<close> applies. One gizmo at 10 with an advance of 15 is
  stored with \<open>rest = -5\<close>, where the claim gives \<open>max 0 (10 - 0 - 15) = 0\<close>, and with
  the status \<open>not paid\<close>.
\<close>

theorem createConfirmedInvoice_negative_rest:
  "(case snd (createConfirmedInvoice clock sales_store overpaid_order) of
      Status201 msg i \<Rightarrow>
        inv_total i = 10 \<and> inv_remise i = 0 \<and> inv_advance i = 15 \<and> inv_rest i = - 5
        \<and> inv_status i = ''not paid'' \<and> inv_paid i = Some False
    | Status400 msg errors \<Rightarrow> False
    | Status500 msg \<Rightarrow> False)
   \<and> map_option inv_rest (get_doc (invoices (fst (createConfirmedInvoice clock sales_store overpaid_order))) ''INV-001'')
       = Some (- 5)
   \<and> max 0 (10 - 0 - 15) = (0::int)"
  by (simp add: sales_defs store_eval invoice_eval generateInvoiceId_first Let_def)

text \<open>
  C1 fails on the code. \<open>deleteInvoice\<close> stages, for the confirmed invoice
  \<open>INV-001\<close> of three gizmos, the write that would put the stock back from 2 to 5, and
  returns after deleting the invoice without committing the batch: the invoice is gone
  and the stock is still 2.
\<close>

theorem deleteInvoice_restoration_dropped:
  "staged_restoration confirmed_store sale = Inr [SetQ ''prod-003'' 5]
   \<and> deleteInvoice confirmed_store ''INV-001'' = (confirmed_store\<lparr>invoices := []\<rparr>, Returned ''INV-001'')
   \<and> map_option p_q (get_doc (products (fst (deleteInvoice confirmed_store ''INV-001''))) ''prod-003'')
       = Some (Some 2)"
  by (simp add: sales_defs store_eval deleteInvoice_def staged_restoration_def stock_of_def)

lemma deleteInvoice_products: "products (fst (deleteInvoice d iid)) = products d"
  by (simp add: deleteInvoice_def split: option.splits sum.splits)

section \<open>Updating an invoice: results\<close>

lemma commit_append: "commit (xs @ ys) d = commit ys (commit xs d)"
  by (simp add: commit_def)

lemma apply_write_product_invoices:
  "product_key w \<noteq> None \<Longrightarrow> invoices (apply_write w d) = invoices d"
  by (cases w) simp_all

lemma commit_product_invoices:
  "\<forall>w\<in>set batch. product_key w \<noteq> None \<Longrightarrow> invoices (commit batch d) = invoices d"
  unfolding commit_def
  by (induction batch arbitrary: d) (simp_all add: apply_write_product_invoices)

lemma commit_stock_writes_invoices:
  "invoices (commit (map stock_write us) d) = invoices d"
  by (rule commit_product_invoices) (simp add: stock_write_def)

lemma commit_UpdateInvoice:
  "get_doc (invoices (commit [UpdateInvoice k u] d)) k
   = map_option (apply_invoice_update u) (get_doc (invoices d) k)"
  by (simp add: commit_def get_update_doc)

lemma updateInvoice_Returned:
  assumes "updateInvoice d iid data = (d', Returned (k, n))"
  shows "\<exists>cur. k = trim (toUpperCase iid) \<and> k \<noteq> [] \<and> get_doc (invoices d) k = Some cur
           \<and> ud_products data \<noteq> Some []
           \<and> concat (map fst (update_turns d cur data)) = []
           \<and> d' = commit (map stock_write (concat (map (\<lambda>t. snd (snd t)) (update_turns d cur data)))
                          @ [UpdateInvoice k (updateData cur data (update_turns d cur data))]) d
           \<and> n = length (concat (map (\<lambda>t. snd (snd t)) (update_turns d cur data)))"
  using assms by (auto simp: updateInvoice_def Let_def split: if_splits option.splits)

lemma updateData_status:
  "u_status (updateData cur data turns)
     = (if u_rest (updateData cur data turns) = 0 then ''paid'' else ''not paid'')
   \<and> u_paid (updateData cur data turns) = (u_rest (updateData cur data turns) = 0)"
  by (simp add: updateData_def Let_def)


lemma INV_001_upper: "trim (toUpperCase ''inv-001'') = ''INV-001''"
  by (simp add: toUpperCase_def toUpperCase_char_def trim_def is_space_def)

text \<open>
  C8: every \<open>updateInvoice\<close> that commits stores the status \<open>paid\<close> when the new
  \<open>rest\<close> is 0 and \<open>not paid\<close> otherwise, and the \<open>paid\<close> flag alike, whatever the
  status was and whatever the update changes: the stored status is then neither
  \<open>pending\<close> nor \<open>confirmed\<close>, so the condition under which \<open>deleteInvoice\<close> stages
  the restoration of stock no longer holds, and its batch is empty.
\<close>

theorem updateInvoice_overwrites_status:
  assumes "updateInvoice d iid data = (d', Returned (k, n))"
  shows "\<exists>i. get_doc (invoices d') k = Some i
           \<and> inv_status i = (if inv_rest i = 0 then ''paid'' else ''not paid'')
           \<and> inv_paid i = Some (inv_rest i = 0)
           \<and> inv_status i \<noteq> ''confirmed'' \<and> inv_status i \<noteq> ''pending''
           \<and> staged_restoration d' i = Inr []
           \<and> deleteInvoice d' k = (d'\<lparr>invoices := delete_doc k (invoices d')\<rparr>, Returned k)"
proof -
  from updateInvoice_Returned [OF assms] obtain cur where
    k: "k \<noteq> []" and cur: "get_doc (invoices d) k = Some cur" and
    d': "d' = commit (map stock_write (concat (map (\<lambda>t. snd (snd t)) (update_turns d cur data)))
                     @ [UpdateInvoice k (updateData cur data (update_turns d cur data))]) d"
    by blast
  let ?u = "updateData cur data (update_turns d cur data)"
  let ?i = "apply_invoice_update ?u cur"
  have stored: "get_doc (invoices d') k = Some ?i"
    unfolding d' commit_append
    by (simp add: commit_UpdateInvoice commit_stock_writes_invoices cur)
  have status: "inv_status ?i = (if inv_rest ?i = 0 then ''paid'' else ''not paid'')"
    and paid: "inv_paid ?i = Some (inv_rest ?i = 0)"
    using updateData_status [of cur data "update_turns d cur data"]
    by (simp_all add: apply_invoice_update_def)
  have other: "inv_status ?i \<noteq> ''confirmed'' \<and> inv_status ?i \<noteq> ''pending''"
    using status by (cases "inv_rest ?i = 0") simp_all
  then have staged: "staged_restoration d' ?i = Inr []"
    by (simp add: staged_restoration_def)
  have "deleteInvoice d' k = (d'\<lparr>invoices := delete_doc k (invoices d')\<rparr>, Returned k)"
    using k stored staged by (simp add: deleteInvoice_def)
  then show ?thesis
    using stored status paid other staged by blast
qed


theorem updateInvoice_overwrites_status_witness:
  "inv_status sale = ''confirmed''
   \<and> snd (updateInvoice confirmed_store ''inv-001'' pay_10) = Returned (''INV-001'', 0)
   \<and> (\<exists>i. get_doc (invoices (fst (updateInvoice confirmed_store ''inv-001'' pay_10))) ''INV-001'' = Some i
          \<and> inv_status i = (if inv_rest i = 0 then ''paid'' else ''not paid'')
          \<and> inv_status i \<noteq> ''confirmed''
          \<and> staged_restoration (fst (updateInvoice confirmed_store ''inv-001'' pay_10)) i = Inr [])"
proof -
  have ret: "snd (updateInvoice confirmed_store ''inv-001'' pay_10) = Returned (''INV-001'', 0)"
    by (simp add: updateInvoice_def INV_001_upper update_turns_def pay_10_def confirmed_store_def
        get_doc_def Let_def)
  then have run: "updateInvoice confirmed_store ''inv-001'' pay_10
                  = (fst (updateInvoice confirmed_store ''inv-001'' pay_10), Returned (''INV-001'', 0))"
    by (simp add: prod_eq_iff)
  have "inv_status sale = ''confirmed''"
    by (simp add: sale_def)
  then show ?thesis
    using updateInvoice_overwrites_status [OF run] ret by blast
qed











section \<open>Confirming an invoice: results\<close>




lemma generateInvoiceId_nonempty: "generateInvoiceId f n \<noteq> []"
  by (cases f) (simp_all add: generateInvoiceId_def Let_def)


lemma apply_write_invoice_products:
  "product_key w = None \<Longrightarrow> products (apply_write w d) = products d"
  by (cases w) simp_all



lemma commit_product_exists:
  "(get_doc (products (commit batch d)) k = None) = (get_doc (products d) k = None)"
  unfolding commit_def
proof (induction batch arbitrary: d)
  case Nil
  show ?case by simp
next
  case (Cons w batch)
  have "(get_doc (products (apply_write w d)) k = None) = (get_doc (products d) k = None)"
    by (cases w) (simp_all add: get_update_doc)
  then show ?case
    using Cons.IH [of "apply_write w d"] by simp
qed










end
